theory Spec2Isabelle
  imports Main "HOL-Library.Word" "HOL-Library.Signed_Division"
begin

section \<open>Data model of geometry.cpp\<close>

text \<open>
  The fields of the four value types are C++ \<open>int\<close> and \<open>unsigned int\<close>, both 32 bits
  wide. Both are modelled as \<open>32 word\<close>: an \<open>unsigned int\<close> is read with \<open>unat\<close> or
  \<open>uint\<close> and compared with \<open><\<close>, an \<open>int\<close> is read with \<open>sint\<close> and compared with
  \<open><s\<close>. Arithmetic on them wraps modulo \<open>2 ^ 32\<close>, and a conversion between the two
  keeps the bit pattern. The 64-bit intermediates of the source (\<open>uint64_t\<close>,
  \<open>int64_t\<close>) are \<open>64 word\<close>.

  C++ leaves the overflow of \<open>int\<close> arithmetic undefined. In \<open>Rectangle::center\<close> the
  model makes it a failure: the sum is \<open>None\<close> when it is not representable. In
  \<open>Rectangle::boundedTo\<close> and \<open>Rectangle::enclosedIn\<close> the model gives it the
  wrap-around of the two's-complement machine, the theorems about them assume that
  every signed result is in range, and their counterexamples are inputs on which no
  \<open>int\<close> operation overflows.

  Field names follow the source, with a prefix where the bare name would clash with a
  variable or a constant of HOL: \<open>Point::x\<close> is \<open>pt_x\<close>, \<open>Rectangle::x\<close> is \<open>rect_x\<close>,
  \<open>SizeRange::min\<close> is \<open>range_min\<close>.
\<close>

type_synonym int32 = "32 word"
type_synonym uint32 = "32 word"
type_synonym int64 = "64 word"
type_synonym uint64 = "64 word"

text \<open>The values a C++ \<open>int\<close> can hold.\<close>

definition int32_range :: "int \<Rightarrow> bool" where
  "int32_range k = (- 2147483648 \<le> k \<and> k < 2147483648)"

text \<open>
  The sum of two \<open>int\<close> values: the 32-bit sum when it is representable, undefined
  (\<open>None\<close>) when it overflows.
\<close>

definition add_int :: "int32 \<Rightarrow> int32 \<Rightarrow> int32 option" where
  "add_int a b = (if int32_range (sint a + sint b) then Some (a + b) else None)"

record Point =
  pt_x :: int32
  pt_y :: int32

record Size =
  width :: uint32
  height :: uint32

record SizeRange =
  range_min :: Size
  range_max :: Size
  hStep :: uint32
  vStep :: uint32

record Rectangle =
  rect_x :: int32
  rect_y :: int32
  rect_width :: uint32
  rect_height :: uint32

section \<open>Size\<close>

text \<open>\<open>operator==(const Size &, const Size &)\<close>\<close>

definition size_eq :: "Size \<Rightarrow> Size \<Rightarrow> bool" where
  "size_eq lhs rhs = (width lhs = width rhs \<and> height lhs = height rhs)"

text \<open>
  \<open>operator<(const Size &, const Size &)\<close>: the two early returns, then the areas
  as \<open>uint64_t\<close> products of the widened fields, then the width.
\<close>

definition size_less :: "Size \<Rightarrow> Size \<Rightarrow> bool" where
  "size_less lhs rhs =
     (if width lhs < width rhs \<and> height lhs < height rhs then True
      else if width lhs \<ge> width rhs \<and> height lhs \<ge> height rhs then False
      else
        let larea = (ucast (width lhs) :: uint64) * (ucast (height lhs) :: uint64);
            rarea = (ucast (width rhs) :: uint64) * (ucast (height rhs) :: uint64)
        in if larea < rarea then True
           else if larea > rarea then False
           else width lhs < width rhs)"

text \<open>
  \<open>Size::boundedToAspectRatio\<close>. The \<open>ASSERT\<close> on the ratio is fatal when it fails:
  the model answers \<open>None\<close>. The cross products are \<open>uint64_t\<close>; each quotient is
  converted back to \<open>unsigned int\<close>, which keeps the low 32 bits.
\<close>

definition boundedToAspectRatio :: "Size \<Rightarrow> Size \<Rightarrow> Size option" where
  "boundedToAspectRatio s ratio =
     (if width ratio = 0 \<or> height ratio = 0 then None
      else
        let ratio1 = (ucast (width s) :: uint64) * (ucast (height ratio) :: uint64);
            ratio2 = (ucast (width ratio) :: uint64) * (ucast (height s) :: uint64)
        in if ratio1 > ratio2
           then Some \<lparr>width = ucast (ratio2 div ucast (height ratio)), height = height s\<rparr>
           else Some \<lparr>width = width s, height = ucast (ratio1 div ucast (width ratio))\<rparr>)"

text \<open>
  \<open>Size::centeredTo\<close>: \<open>center.x - width / 2\<close> is computed in \<open>unsigned int\<close> and
  converted to \<open>int\<close>, that is, modulo \<open>2 ^ 32\<close>.
\<close>

definition centeredTo :: "Size \<Rightarrow> Point \<Rightarrow> Rectangle" where
  "centeredTo s center =
     (let x = pt_x center - width s div 2;
          y = pt_y center - height s div 2
      in \<lparr>rect_x = x, rect_y = y, rect_width = width s, rect_height = height s\<rparr>)"

section \<open>SizeRange\<close>

text \<open>\<open>operator==(const SizeRange &, const SizeRange &)\<close>\<close>

definition sizeRange_eq :: "SizeRange \<Rightarrow> SizeRange \<Rightarrow> bool" where
  "sizeRange_eq lhs rhs =
     (size_eq (range_min lhs) (range_min rhs) \<and> size_eq (range_max lhs) (range_max rhs))"

text \<open>
  \<open>SizeRange::contains\<close>: one condition, six disjuncts; the subtractions are
  \<open>unsigned int\<close> subtractions and \<open>%\<close> is the unsigned remainder.
\<close>

definition contains :: "SizeRange \<Rightarrow> Size \<Rightarrow> bool" where
  "contains r s =
     (if width s < width (range_min r) \<or> width s > width (range_max r) \<or>
         height s < height (range_min r) \<or> height s > height (range_max r) \<or>
         (hStep r \<noteq> 0 \<and> (width s - width (range_min r)) mod hStep r \<noteq> 0) \<or>
         (vStep r \<noteq> 0 \<and> (height s - height (range_min r)) mod vStep r \<noteq> 0)
      then False
      else True)"

section \<open>Point\<close>

text \<open>\<open>operator==(const Point &, const Point &)\<close>\<close>

definition point_eq :: "Point \<Rightarrow> Point \<Rightarrow> bool" where
  "point_eq lhs rhs = (pt_x lhs = pt_x rhs \<and> pt_y lhs = pt_y rhs)"

section \<open>Rectangle\<close>

text \<open>
  \<open>Rectangle::center\<close>: the halved extents are below \<open>2 ^ 31\<close>, so their
  \<open>static_cast<int>\<close> keeps the value; each coordinate is then an \<open>int + int\<close> sum,
  and the function has no result when one of the two sums overflows.
\<close>

definition center :: "Rectangle \<Rightarrow> Point option" where
  "center r =
     (case add_int (rect_x r) (rect_width r div 2) of
        None \<Rightarrow> None
      | Some cx \<Rightarrow>
          (case add_int (rect_y r) (rect_height r div 2) of
             None \<Rightarrow> None
           | Some cy \<Rightarrow> Some \<lparr>pt_x = cx, pt_y = cy\<rparr>))"

text \<open>
  \<open>std::max\<close>, \<open>std::min\<close> and \<open>std::clamp\<close> at type \<open>int\<close>: signed comparisons.
  \<open>std::max(a, b)\<close> is \<open>(a < b) ? b : a\<close>, \<open>std::min(a, b)\<close> is \<open>(b < a) ? b : a\<close>
  and \<open>std::clamp(v, lo, hi)\<close> is \<open>(v < lo) ? lo : (hi < v) ? hi : v\<close>.
\<close>

definition max_int :: "int32 \<Rightarrow> int32 \<Rightarrow> int32" where
  "max_int a b = (if a <s b then b else a)"

definition min_int :: "int32 \<Rightarrow> int32 \<Rightarrow> int32" where
  "min_int a b = (if b <s a then b else a)"

definition clamp_int :: "int32 \<Rightarrow> int32 \<Rightarrow> int32 \<Rightarrow> int32" where
  "clamp_int v lo hi = (if v <s lo then lo else if hi <s v then hi else v)"

text \<open>
  \<open>Rectangle::boundedTo\<close>. The sums \<open>x + width\<close> are \<open>unsigned int\<close> sums that
  \<open>std::min<int>\<close> converts to \<open>int\<close>; the differences are \<open>int\<close> differences whose
  maximum with \<open>0\<close> is stored in an \<open>unsigned int\<close>. All of it is 32-bit arithmetic on
  one bit pattern, compared as signed.
\<close>

definition boundedTo :: "Rectangle \<Rightarrow> Rectangle \<Rightarrow> Rectangle" where
  "boundedTo r bound =
     (let topLeftX = max_int (rect_x r) (rect_x bound);
          topLeftY = max_int (rect_y r) (rect_y bound);
          bottomRightX = min_int (rect_x r + rect_width r) (rect_x bound + rect_width bound);
          bottomRightY = min_int (rect_y r + rect_height r) (rect_y bound + rect_height bound);
          newWidth = max_int (bottomRightX - topLeftX) 0;
          newHeight = max_int (bottomRightY - topLeftY) 0
      in \<lparr>rect_x = topLeftX, rect_y = topLeftY, rect_width = newWidth, rect_height = newHeight\<rparr>)"

text \<open>
  \<open>Rectangle::enclosedIn\<close>: \<open>boundedTo\<close> against a rectangle at the receiver's
  position with the size of the boundary, then the two clamps, which assign \<open>result.x\<close>
  and \<open>result.y\<close> in turn.
\<close>

definition enclosedIn :: "Rectangle \<Rightarrow> Rectangle \<Rightarrow> Rectangle" where
  "enclosedIn r boundary =
     (let result = boundedTo r \<lparr>rect_x = rect_x r, rect_y = rect_y r,
                                rect_width = rect_width boundary,
                                rect_height = rect_height boundary\<rparr>;
          result = result\<lparr>rect_x := clamp_int (rect_x result) (rect_x boundary)
                             (rect_x boundary + rect_width boundary - rect_width result)\<rparr>;
          result = result\<lparr>rect_y := clamp_int (rect_y result) (rect_y boundary)
                             (rect_y boundary + rect_height boundary - rect_height result)\<rparr>
      in result)"

text \<open>
  \<open>Rectangle::toString\<close> writes the fields to a \<open>std::stringstream\<close>, which prints
  an \<open>int\<close> in decimal with a leading \<open>-\<close> when negative and an \<open>unsigned int\<close> in
  decimal. \<open>dec_nat\<close> and \<open>dec_int\<close> are these two renderings.
\<close>

definition digit_char :: "nat \<Rightarrow> char" where
  "digit_char d = ''0123456789'' ! d"

fun dec_nat :: "nat \<Rightarrow> string" where
  "dec_nat n = (if n < 10 then [digit_char n] else dec_nat (n div 10) @ [digit_char (n mod 10)])"

declare dec_nat.simps [simp del]

definition dec_int :: "int \<Rightarrow> string" where
  "dec_int i = (if i < 0 then CHR ''-'' # dec_nat (nat (- i)) else dec_nat (nat i))"

definition rectangle_toString :: "Rectangle \<Rightarrow> string" where
  "rectangle_toString r =
     ''('' @ dec_int (sint (rect_x r)) @ ''x'' @ dec_int (sint (rect_y r)) @ '')/'' @
     dec_nat (unat (rect_width r)) @ ''x'' @ dec_nat (unat (rect_height r))"

text \<open>
  The quotient of two \<open>int64_t\<close> values: C++ division truncates towards zero.
\<close>

definition sdiv64 :: "int64 \<Rightarrow> int64 \<Rightarrow> int64" where
  "sdiv64 a b = word_of_int (sint a sdiv sint b)"

text \<open>
  \<open>Rectangle::scaleBy\<close> assigns the four fields of the receiver in turn; the model
  maps the receiver before the call to the receiver after it. Each product is taken in
  64 bits (\<open>int64_t\<close> for the coordinates, \<open>uint64_t\<close> for the extents), divided, and
  stored into the 32-bit field, which keeps the low 32 bits. A division by a zero
  component of the denominator has no defined result: the model answers \<open>None\<close>.
\<close>

definition scaleBy :: "Size \<Rightarrow> Size \<Rightarrow> Rectangle \<Rightarrow> Rectangle option" where
  "scaleBy numerator denominator r =
     (if width denominator = 0 \<or> height denominator = 0 then None
      else
        let r1 = r\<lparr>rect_x := ucast (sdiv64 ((scast (rect_x r) :: int64) * ucast (width numerator))
                                        (ucast (width denominator)))\<rparr>;
            r2 = r1\<lparr>rect_y := ucast (sdiv64 ((scast (rect_y r1) :: int64) * ucast (height numerator))
                                          (ucast (height denominator)))\<rparr>;
            r3 = r2\<lparr>rect_width := ucast (((ucast (rect_width r2) :: uint64) * ucast (width numerator))
                                             div ucast (width denominator))\<rparr>;
            r4 = r3\<lparr>rect_height := ucast (((ucast (rect_height r3) :: uint64) * ucast (height numerator))
                                              div ucast (height denominator))\<rparr>
        in Some r4)"

text \<open>
  \<open>Rectangle::scaledBy\<close> is a \<open>const\<close> member that computes four locals and returns
  a new rectangle; the model returns that rectangle together with the receiver after the
  call.
\<close>

definition scaledBy :: "Size \<Rightarrow> Size \<Rightarrow> Rectangle \<Rightarrow> (Rectangle \<times> Rectangle) option" where
  "scaledBy numerator denominator r =
     (if width denominator = 0 \<or> height denominator = 0 then None
      else
        let scaledX = (ucast (sdiv64 ((scast (rect_x r) :: int64) * ucast (width numerator))
                                     (ucast (width denominator))) :: int32);
            scaledY = (ucast (sdiv64 ((scast (rect_y r) :: int64) * ucast (height numerator))
                                     (ucast (height denominator))) :: int32);
            scaledWidth = (ucast (((ucast (rect_width r) :: uint64) * ucast (width numerator))
                                   div ucast (width denominator)) :: uint32);
            scaledHeight = (ucast (((ucast (rect_height r) :: uint64) * ucast (height numerator))
                                    div ucast (height denominator)) :: uint32)
        in Some (\<lparr>rect_x = scaledX, rect_y = scaledY,
                   rect_width = scaledWidth, rect_height = scaledHeight\<rparr>, r))"

section \<open>Exact positions\<close>

text \<open>
  For stating what the rectangle operations compute, the edges of a rectangle as
  unbounded integers.
  \<open>axis_in_range\<close> collects, for one axis of \<open>enclosedIn\<close>, the intermediate values
  that have to be representable: the far edge of the rectangle, the far edge of the
  rectangle resized to the extent of the boundary, the clipped extent, and the upper
  bound of the clamp.
\<close>

definition right_edge :: "Rectangle \<Rightarrow> int" where
  "right_edge r = sint (rect_x r) + uint (rect_width r)"

definition bottom_edge :: "Rectangle \<Rightarrow> int" where
  "bottom_edge r = sint (rect_y r) + uint (rect_height r)"

definition axis_in_range :: "int \<Rightarrow> int \<Rightarrow> int \<Rightarrow> int \<Rightarrow> bool" where
  "axis_in_range pos len bpos blen =
     (int32_range (pos + len) \<and> int32_range (pos + blen) \<and> int32_range (min len blen) \<and>
      int32_range (bpos + blen - min len blen))"

section \<open>Arithmetic facts about the widened products\<close>

lemma unat_widen:
  fixes a :: uint32
  shows "unat (ucast a :: uint64) = unat a"
  by (simp add: unsigned_ucast_eq take_bit_nat_eq_self_iff)
     (rule less_trans [OF unsigned_less], simp)

lemma unat_widened_product:
  fixes a b :: uint32
  shows "unat ((ucast a :: uint64) * (ucast b :: uint64)) = unat a * unat b"
proof -
  have a: "unat a < 2 ^ 32" and b: "unat b < 2 ^ 32"
    using unsigned_less [of a] unsigned_less [of b] by simp_all
  have "unat a * unat b < 2 ^ 32 * 2 ^ 32"
    using a b by (rule mult_strict_mono) simp_all
  then have "unat (ucast a :: uint64) * unat (ucast b :: uint64) < 2 ^ LENGTH(64)"
    by (simp add: unat_widen)
  then have "unat ((ucast a :: uint64) * (ucast b :: uint64))
      = unat (ucast a :: uint64) * unat (ucast b :: uint64)"
    by (rule unat_mult_lem [THEN iffD1])
  then show ?thesis
    by (simp add: unat_widen)
qed

lemma size_eq_iff: "size_eq a b = (a = b)"
  by (cases a, cases b) (simp add: size_eq_def)

lemma point_eq_iff: "point_eq a b = (a = b)"
  by (cases a, cases b) (simp add: point_eq_def)

lemma unat_lt_2p32:
  fixes a :: uint32
  shows "unat a < 4294967296"
  using unsigned_less [of a, where ?'a = nat] by simp

lemma unat_narrow:
  fixes a :: uint64
  assumes "unat a < 2 ^ 32"
  shows "unat (ucast a :: uint32) = unat a"
  using assms by (simp add: unsigned_ucast_eq take_bit_nat_eq_self_iff)

lemma unat_narrow_quotient:
  fixes a b c :: uint32
  assumes "unat a * unat b div unat c < 4294967296"
  shows "unat (ucast (((ucast a :: uint64) * (ucast b :: uint64)) div (ucast c :: uint64)) :: uint32)
         = unat a * unat b div unat c"
proof -
  have "unat (((ucast a :: uint64) * (ucast b :: uint64)) div (ucast c :: uint64))
           = unat a * unat b div unat c"
    by (simp add: unat_div unat_widened_product unat_widen)
  with assms show ?thesis
    by (simp add: unat_narrow)
qed

lemma uint_sub_mod:
  fixes a b c :: uint32
  assumes "b \<le> a"
  shows "((a - b) mod c = 0) = ((uint a - uint b) mod uint c = 0)"
proof -
  have "uint (a - b) = uint a - uint b"
    using assms by (simp add: uint_minus_simple_alt)
  then have "uint ((a - b) mod c) = (uint a - uint b) mod uint c"
    by (simp add: uint_mod_distrib)
  moreover have "((a - b) mod c = 0) = (uint ((a - b) mod c) = 0)"
    by (simp add: uint_0_iff)
  ultimately show ?thesis
    by simp
qed

lemma sint32_of_int:
  assumes "- 2147483648 \<le> k" and "k < 2147483648"
  shows "sint (word_of_int k :: int32) = k"
  using assms by (simp add: sint_sbintrunc' signed_take_bit_int_eq_self)

lemma sint64_of_int:
  assumes "- 9223372036854775808 \<le> k" and "k < 9223372036854775808"
  shows "sint (word_of_int k :: int64) = k"
  using assms by (simp add: sint_sbintrunc' signed_take_bit_int_eq_self)

lemma uint_lt_2p32:
  fixes a :: uint32
  shows "uint a < 4294967296"
  using unsigned_less [of a, where ?'a = int] by simp

lemma sint_ge_32:
  fixes a :: int32
  shows "- 2147483648 \<le> sint a"
  using sint_ge [of a] by simp

lemma sint_lt_32:
  fixes a :: int32
  shows "sint a < 2147483648"
  using sint_lt [of a] by simp

lemma narrow_of_int: "(ucast (word_of_int k :: uint64) :: uint32) = word_of_int k"
  by transfer simp

lemma narrow_of_nat: "(ucast (word_of_nat n :: uint64) :: uint32) = word_of_nat n"
  by transfer simp

lemma sint_widen_signed:
  fixes a :: int32
  shows "sint (scast a :: int64) = sint a"
  by (simp add: sint_up_scast is_up)

lemma sint_widen_unsigned:
  fixes a :: uint32
  shows "sint (ucast a :: int64) = uint a"
proof -
  have "(ucast a :: int64) = word_of_int (uint a)"
    by simp
  moreover have "sint (word_of_int (uint a) :: int64) = uint a"
  proof (rule sint64_of_int)
    have "0 \<le> uint a" by simp
    then show "- 9223372036854775808 \<le> uint a" by linarith
    show "uint a < 9223372036854775808"
      using uint_lt_2p32 [of a] by linarith
  qed
  ultimately show ?thesis
    by simp
qed

lemma sint_widened_product:
  fixes a :: int32 and b :: uint32
  shows "sint ((scast a :: int64) * (ucast b :: int64)) = sint a * uint b"
proof -
  have eq: "(scast a :: int64) * (ucast b :: int64) = word_of_int (sint a * uint b)"
    by simp
  have b0: "0 \<le> uint b" and b1: "uint b \<le> 4294967295"
    using uint_lt_2p32 [of b] by simp_all
  have lo: "- 2147483648 * 4294967295 \<le> sint a * uint b"
  proof -
    have "- 2147483648 * 4294967295 \<le> - 2147483648 * uint b"
      using b1 by simp
    also have "\<dots> \<le> sint a * uint b"
      using sint_ge_32 [of a] b0 by (intro mult_right_mono) simp_all
    finally show ?thesis .
  qed
  have hi: "sint a * uint b \<le> 2147483648 * 4294967295"
  proof -
    have "sint a * uint b \<le> 2147483648 * uint b"
      using sint_lt_32 [of a] b0 by (intro mult_right_mono) simp_all
    also have "\<dots> \<le> 2147483648 * 4294967295"
      using b1 by simp
    finally show ?thesis .
  qed
  have "sint (word_of_int (sint a * uint b) :: int64) = sint a * uint b"
    using lo hi by (intro sint64_of_int) linarith+
  with eq show ?thesis
    by simp
qed

lemma scaled_coordinate:
  fixes a :: int32 and b c :: uint32
  shows "(ucast (sdiv64 ((scast a :: int64) * ucast b) (ucast c)) :: int32)
         = word_of_int (sint a * uint b sdiv uint c)"
  by (simp add: sdiv64_def narrow_of_int sint_widened_product sint_widen_unsigned)

lemma scaled_extent:
  fixes a b c :: uint32
  shows "(ucast (((ucast a :: uint64) * ucast b) div ucast c) :: uint32)
         = word_of_nat (unat a * unat b div unat c)"
proof -
  have "((ucast a :: uint64) * ucast b) div ucast c
        = word_of_nat (unat (((ucast a :: uint64) * ucast b) div ucast c))"
    by simp
  also have "\<dots> = word_of_nat (unat a * unat b div unat c)"
    by (simp only: unat_div unat_widened_product unat_widen)
  finally show ?thesis
    by (simp only: narrow_of_nat)
qed

section \<open>Facts about signed 32-bit arithmetic within range\<close>

lemma sint_max_int: "sint (max_int a b) = max (sint a) (sint b)"
  by (simp add: max_int_def word_sless_alt max_def)

lemma sint_min_int: "sint (min_int a b) = min (sint a) (sint b)"
  by (simp add: min_int_def word_sless_alt min_def)

lemma sint_clamp_int:
  "sint (clamp_int v lo hi)
   = (if sint v < sint lo then sint lo else if sint hi < sint v then sint hi else sint v)"
  by (simp add: clamp_int_def word_sless_alt)

lemma sint_far_edge:
  fixes x :: int32 and w :: uint32
  assumes "int32_range (sint x + uint w)"
  shows "sint (x + w) = sint x + uint w"
proof -
  have "x + w = word_of_int (sint x + uint w)"
    by simp
  moreover have "sint (word_of_int (sint x + uint w) :: int32) = sint x + uint w"
    using assms by (intro sint32_of_int) (simp_all add: int32_range_def)
  ultimately show ?thesis
    by simp
qed

lemma sint_difference:
  fixes a b :: int32
  assumes "int32_range (sint a - sint b)"
  shows "sint (a - b) = sint a - sint b"
proof -
  have "a - b = word_of_int (sint a - sint b)"
    by simp
  moreover have "sint (word_of_int (sint a - sint b) :: int32) = sint a - sint b"
    using assms by (intro sint32_of_int) (simp_all add: int32_range_def)
  ultimately show ?thesis
    by simp
qed

lemma uint_of_nonneg:
  fixes v :: int32
  assumes "0 \<le> sint v"
  shows "uint v = sint v"
proof -
  have "uint (word_of_int (sint v) :: int32) = sint v mod 2 ^ LENGTH(32)"
    by (rule uint_word_of_int)
  then have "uint v = sint v mod 4294967296"
    by simp
  also have "\<dots> = sint v"
    using assms sint_lt_32 [of v] by simp
  finally show ?thesis .
qed

lemma overlap_extent:
  fixes x bx :: int32 and w bw :: uint32
  assumes "int32_range (sint x + uint w)" and "int32_range (sint bx + uint bw)"
    and "int32_range (min (sint x + uint w) (sint bx + uint bw) - max (sint x) (sint bx))"
  shows "uint (max_int (min_int (x + w) (bx + bw) - max_int x bx) 0)
         = max (min (sint x + uint w) (sint bx + uint bw) - max (sint x) (sint bx)) 0"
proof -
  let ?d = "min (sint x + uint w) (sint bx + uint bw) - max (sint x) (sint bx)"
  have far: "sint (min_int (x + w) (bx + bw)) = min (sint x + uint w) (sint bx + uint bw)"
    using assms(1,2) by (simp add: sint_min_int sint_far_edge)
  have "sint (min_int (x + w) (bx + bw) - max_int x bx) = ?d"
    using assms(3) far by (simp add: sint_difference sint_max_int)
  then have s: "sint (max_int (min_int (x + w) (bx + bw) - max_int x bx) 0) = max ?d 0"
    by (simp add: sint_max_int)
  then have "0 \<le> sint (max_int (min_int (x + w) (bx + bw) - max_int x bx) 0)"
    by simp
  then have "uint (max_int (min_int (x + w) (bx + bw) - max_int x bx) 0)
             = sint (max_int (min_int (x + w) (bx + bw) - max_int x bx) 0)"
    by (rule uint_of_nonneg)
  with s show ?thesis
    by simp
qed

lemma uint_word_min: "uint (min a b) = min (uint a) (uint b)"
  by (simp add: min_def word_le_def)

lemma enclose_extent:
  fixes x :: int32 and w bw :: uint32
  assumes "int32_range (sint x + uint w)" and "int32_range (sint x + uint bw)"
    and "int32_range (min (uint w) (uint bw))"
  shows "max_int (min_int (x + w) (x + bw) - max_int x x) 0 = min w bw"
proof -
  have d: "min (sint x + uint w) (sint x + uint bw) - max (sint x) (sint x)
           = min (uint w) (uint bw)"
    by (simp add: min_def)
  have "uint (max_int (min_int (x + w) (x + bw) - max_int x x) 0)
        = max (min (sint x + uint w) (sint x + uint bw) - max (sint x) (sint x)) 0"
    using assms by (intro overlap_extent) (simp_all only: d)
  also have "\<dots> = min (uint w) (uint bw)"
    by (simp only: d) simp
  finally have "uint (max_int (min_int (x + w) (x + bw) - max_int x x) 0) = uint (min w bw)"
    by (simp add: uint_word_min)
  then show ?thesis
    by (simp only: word_uint_eq_iff)
qed

lemma enclose_upper_bound:
  fixes bx :: int32 and bw nw :: uint32
  assumes "int32_range (sint bx + uint bw - uint nw)"
  shows "sint (bx + bw - nw) = sint bx + uint bw - uint nw"
proof -
  have "bx + bw - nw = word_of_int (sint bx + uint bw - uint nw)"
    by simp
  moreover have "sint (word_of_int (sint bx + uint bw - uint nw) :: int32)
                 = sint bx + uint bw - uint nw"
    using assms by (intro sint32_of_int) (simp_all add: int32_range_def)
  ultimately show ?thesis
    by simp
qed

lemma enclose_axis:
  fixes x bx :: int32 and w bw :: uint32
  assumes "axis_in_range (sint x) (uint w) (sint bx) (uint bw)"
  defines "nw \<equiv> max_int (min_int (x + w) (x + bw) - max_int x x) 0"
  shows "nw = min w bw"
    and "sint (clamp_int (max_int x x) bx (bx + bw - nw))
         = max (sint bx) (min (sint x) (sint bx + uint bw - uint (min w bw)))"
proof -
  show nw: "nw = min w bw"
    using assms(1) unfolding nw_def axis_in_range_def by (intro enclose_extent) simp_all
  have hi: "sint (bx + bw - nw) = sint bx + uint bw - uint (min w bw)"
    using assms(1) unfolding nw axis_in_range_def
    by (simp add: enclose_upper_bound uint_word_min)
  have "uint (min w bw) \<le> uint bw"
    by (simp add: uint_word_min)
  then have "sint bx \<le> sint bx + uint bw - uint (min w bw)"
    by simp
  then show "sint (clamp_int (max_int x x) bx (bx + bw - nw))
         = max (sint bx) (min (sint x) (sint bx + uint bw - uint (min w bw)))"
    by (simp add: sint_clamp_int hi max_int_def)
qed

lemma sint_half:
  fixes w :: uint32
  shows "sint (w div 2) = uint w div 2"
proof -
  have u: "uint (w div 2) = uint w div 2"
    by (simp add: uint_div_distrib)
  have "w div 2 = word_of_int (uint (w div 2))"
    by simp
  moreover have "sint (word_of_int (uint (w div 2)) :: int32) = uint (w div 2)"
    unfolding u
  proof (rule sint32_of_int)
    have "0 \<le> uint w div 2"
      by simp
    then show "- 2147483648 \<le> uint w div 2"
      by linarith
    show "uint w div 2 < 2147483648"
      using uint_lt_2p32 [of w] by linarith
  qed
  ultimately show ?thesis
    using u by simp
qed

lemma sint_corner:
  fixes c :: int32 and w :: uint32
  assumes "int32_range (sint c - uint w div 2)"
  shows "sint (c - w div 2) = sint c - uint w div 2"
proof -
  have "sint (c - w div 2) = sint c - sint (w div 2)"
    using assms by (intro sint_difference) (simp add: sint_half)
  then show ?thesis
    by (simp add: sint_half)
qed

lemma add_back_half:
  fixes c :: int32 and w :: uint32
  assumes "int32_range (sint c - uint w div 2)"
  shows "add_int (c - w div 2) (w div 2) = Some c"
proof -
  have "sint (c - w div 2) + sint (w div 2) = sint c"
    using assms by (simp add: sint_corner sint_half)
  moreover have "int32_range (sint c)"
    using sint_ge_32 [of c] sint_lt_32 [of c] by (simp add: int32_range_def)
  ultimately show ?thesis
    by (simp add: add_int_def)
qed

section \<open>Facts about the decimal rendering\<close>

lemma dec_nat_small: "n < 10 \<Longrightarrow> dec_nat n = [digit_char n]"
  by (subst dec_nat.simps) simp

lemma dec_nat_large:
  "\<not> n < 10 \<Longrightarrow> dec_nat n = dec_nat (n div 10) @ [digit_char (n mod 10)]"
  by (subst dec_nat.simps) simp

lemma digit_char_digit: "d < 10 \<Longrightarrow> digit_char d \<in> set ''0123456789''"
  unfolding digit_char_def by (rule nth_mem) simp

lemma dec_nat_digits: "set (dec_nat n) \<subseteq> set ''0123456789''"
proof (induction n rule: dec_nat.induct)
  case (1 n)
  show ?case
  proof (cases "n < 10")
    case True
    then show ?thesis
      using digit_char_digit [of n] by (subst dec_nat.simps) simp
  next
    case False
    moreover have "digit_char (n mod 10) \<in> set ''0123456789''"
      by (rule digit_char_digit) simp
    ultimately show ?thesis
      using 1 by (subst dec_nat.simps) simp
  qed
qed

lemma dec_nat_no_comma: "CHR '','' \<notin> set (dec_nat n)"
  using dec_nat_digits [of n] by auto

lemma dec_int_no_comma: "CHR '','' \<notin> set (dec_int i)"
  by (simp add: dec_int_def dec_nat_no_comma)

section \<open>The ordering of sizes\<close>

text \<open>
  C1. \<open>lhs < rhs\<close> follows the three-tier rule: true when \<open>lhs\<close> is strictly smaller
  in both dimensions; otherwise false when \<open>lhs\<close> is greater or equal in both; otherwise
  decided by the exact areas (the 64-bit products never overflow, so they are the
  products of the field values as natural numbers), a tie in area being broken by the
  width.
\<close>

theorem size_less_three_tier:
  "size_less lhs rhs =
     (if width lhs < width rhs \<and> height lhs < height rhs then True
      else if width lhs \<ge> width rhs \<and> height lhs \<ge> height rhs then False
      else (unat (width lhs) * unat (height lhs) < unat (width rhs) * unat (height rhs)
            \<or> (unat (width lhs) * unat (height lhs) = unat (width rhs) * unat (height rhs)
               \<and> width lhs < width rhs)))"
  by (auto simp add: size_less_def Let_def word_less_nat_alt unat_widened_product)

theorem size_less_three_tier_witness:
  "size_less \<lparr>width = 2, height = 6\<rparr> \<lparr>width = 3, height = 4\<rparr>
   \<and> \<not> size_less \<lparr>width = 3, height = 4\<rparr> \<lparr>width = 2, height = 6\<rparr>"
  using size_less_three_tier [of "\<lparr>width = 2, height = 6\<rparr>" "\<lparr>width = 3, height = 4\<rparr>"]
        size_less_three_tier [of "\<lparr>width = 3, height = 4\<rparr>" "\<lparr>width = 2, height = 6\<rparr>"]
  by simp

text \<open>
  C10. The strict ordering is not total on distinct sizes: \<open>Size(0,3)\<close> and
  \<open>Size(0,7)\<close> differ, and neither is smaller than the other. In one direction the
  second test (greater or equal in both dimensions) returns false; in the other both
  areas are zero and the widths are equal, so the fallback returns false.
\<close>

theorem size_less_not_total:
  "\<not> size_eq \<lparr>width = 0, height = 3\<rparr> \<lparr>width = 0, height = 7\<rparr>
   \<and> \<not> size_less \<lparr>width = 0, height = 3\<rparr> \<lparr>width = 0, height = 7\<rparr>
   \<and> \<not> size_less \<lparr>width = 0, height = 7\<rparr> \<lparr>width = 0, height = 3\<rparr>
   \<and> (\<exists>a b. a \<noteq> b \<and> \<not> size_less a b \<and> \<not> size_less b a)"
proof -
  have 1: "\<not> size_eq \<lparr>width = 0, height = 3\<rparr> \<lparr>width = 0, height = 7\<rparr>"
    by (simp add: size_eq_def)
  have 2: "\<not> size_less \<lparr>width = 0, height = 3\<rparr> \<lparr>width = 0, height = 7\<rparr>"
    by (simp add: size_less_def)
  have 3: "\<not> size_less \<lparr>width = 0, height = 7\<rparr> \<lparr>width = 0, height = 3\<rparr>"
    by (simp add: size_less_def)
  have "\<lparr>width = 0, height = 3\<rparr> \<noteq> \<lparr>width = 0 :: uint32, height = 7 :: uint32\<rparr>"
    by simp
  with 2 3 have "\<exists>a b. a \<noteq> b \<and> \<not> size_less a b \<and> \<not> size_less b a"
    by blast
  with 1 2 3 show ?thesis by blast
qed

section \<open>Equality of size ranges\<close>

text \<open>
  C7. Two size ranges are equal exactly when their \<open>min\<close> and their \<open>max\<close> are equal;
  the steps take no part, so ranges that differ only in \<open>hStep\<close> and \<open>vStep\<close> are
  equal.
\<close>

theorem sizeRange_eq_ignores_steps:
  "sizeRange_eq r1 r2 = (range_min r1 = range_min r2 \<and> range_max r1 = range_max r2)
   \<and> sizeRange_eq \<lparr>range_min = lo, range_max = hi, hStep = h1, vStep = v1\<rparr>
                   \<lparr>range_min = lo, range_max = hi, hStep = h2, vStep = v2\<rparr>"
  by (simp add: sizeRange_eq_def size_eq_iff)

section \<open>Containment in a size range\<close>

text \<open>
  C2. \<open>r.contains(s)\<close> is true exactly when the width and the height of \<open>s\<close> lie
  between those of \<open>r.min\<close> and \<open>r.max\<close>, all four bounds inclusive, and, for each
  axis whose step is not zero, the distance from the minimum is a multiple of the step.
  A step of zero switches the test of its axis off. The distance is the exact
  difference of the field values: within the bounds the unsigned subtraction does not
  wrap.
\<close>

theorem contains_iff:
  "contains r s =
     (width (range_min r) \<le> width s \<and> width s \<le> width (range_max r) \<and>
      height (range_min r) \<le> height s \<and> height s \<le> height (range_max r) \<and>
      (hStep r \<noteq> 0 \<longrightarrow> (uint (width s) - uint (width (range_min r))) mod uint (hStep r) = 0) \<and>
      (vStep r \<noteq> 0 \<longrightarrow> (uint (height s) - uint (height (range_min r))) mod uint (vStep r) = 0))"
proof (cases "width (range_min r) \<le> width s \<and> height (range_min r) \<le> height s")
  case True
  then show ?thesis
    by (auto simp add: contains_def uint_sub_mod not_less)
next
  case False
  then show ?thesis
    by (auto simp add: contains_def not_less)
qed

theorem contains_iff_witness:
  "contains \<lparr>range_min = \<lparr>width = 100, height = 100\<rparr>, range_max = \<lparr>width = 200, height = 200\<rparr>,
             hStep = 10, vStep = 10\<rparr> \<lparr>width = 150, height = 150\<rparr>
   \<and> \<not> contains \<lparr>range_min = \<lparr>width = 100, height = 100\<rparr>, range_max = \<lparr>width = 200, height = 200\<rparr>,
             hStep = 10, vStep = 10\<rparr> \<lparr>width = 155, height = 150\<rparr>
   \<and> \<not> contains \<lparr>range_min = \<lparr>width = 100, height = 100\<rparr>, range_max = \<lparr>width = 200, height = 200\<rparr>,
             hStep = 10, vStep = 10\<rparr> \<lparr>width = 250, height = 150\<rparr>
   \<and> contains \<lparr>range_min = \<lparr>width = 100, height = 100\<rparr>, range_max = \<lparr>width = 200, height = 200\<rparr>,
             hStep = 0, vStep = 0\<rparr> \<lparr>width = 155, height = 200\<rparr>"
  by (simp add: contains_iff)

section \<open>Bounding a size to an aspect ratio\<close>

text \<open>
  C5. When both components of \<open>ratio\<close> are non-zero, \<open>s.boundedToAspectRatio(ratio)\<close>
  returns a size. It compares the exact cross products \<open>s.width * ratio.height\<close> and
  \<open>ratio.width * s.height\<close>; when the first is larger the result is
  \<open>(ratio.width * s.height / ratio.height, s.height)\<close>, otherwise
  \<open>(s.width, s.width * ratio.height / ratio.width)\<close>, the divisions truncating and
  their quotients fitting in 32 bits. The result is smaller or equal to \<open>s\<close> in
  both dimensions, and so are its cross products with the ratio.
\<close>

theorem boundedToAspectRatio_shrinks:
  assumes "width ratio \<noteq> 0" and "height ratio \<noteq> 0"
  shows "\<exists>res. boundedToAspectRatio s ratio = Some res \<and>
     (if unat (width s) * unat (height ratio) > unat (width ratio) * unat (height s)
      then unat (width res) = unat (width ratio) * unat (height s) div unat (height ratio)
           \<and> height res = height s
      else width res = width s
           \<and> unat (height res) = unat (width s) * unat (height ratio) div unat (width ratio)) \<and>
     width res \<le> width s \<and> height res \<le> height s \<and>
     unat (width res) * unat (height ratio) \<le> unat (width s) * unat (height ratio) \<and>
     unat (width ratio) * unat (height res) \<le> unat (width ratio) * unat (height s)"
proof -
  let ?w = "unat (width s)" and ?h = "unat (height s)"
  let ?rw = "unat (width ratio)" and ?rh = "unat (height ratio)"
  have rw: "0 < ?rw" and rh: "0 < ?rh"
    using assms by (simp_all add: unat_gt_0)
  show ?thesis
  proof (cases "?w * ?rh > ?rw * ?h")
    case True
    then have "?rw * ?h div ?rh < ?w"
      using rh by (simp add: less_mult_imp_div_less)
    then have le: "?rw * ?h div ?rh \<le> ?w"
      by simp
    have wd: "unat (ucast (((ucast (width ratio) :: uint64) * (ucast (height s) :: uint64))
                 div (ucast (height ratio) :: uint64)) :: uint32) = ?rw * ?h div ?rh"
      using le unat_lt_2p32 [of "width s"] by (intro unat_narrow_quotient) simp
    from True assms wd le show ?thesis
      by (simp add: boundedToAspectRatio_def Let_def word_less_nat_alt word_le_nat_alt
          unat_widened_product)
  next
    case False
    then have "?w * ?rh \<le> ?rw * ?h"
      by simp
    then have "?w * ?rh div ?rw \<le> ?rw * ?h div ?rw"
      by (rule div_le_mono)
    then have le: "?w * ?rh div ?rw \<le> ?h"
      using rw by simp
    have hd: "unat (ucast (((ucast (width s) :: uint64) * (ucast (height ratio) :: uint64))
                 div (ucast (width ratio) :: uint64)) :: uint32) = ?w * ?rh div ?rw"
      using le unat_lt_2p32 [of "height s"] by (intro unat_narrow_quotient) simp
    from False assms hd le show ?thesis
      by (simp add: boundedToAspectRatio_def Let_def word_less_nat_alt word_le_nat_alt
          unat_widened_product)
  qed
qed

theorem boundedToAspectRatio_shrinks_witness:
  "boundedToAspectRatio \<lparr>width = 1920, height = 1080\<rparr> \<lparr>width = 4, height = 3\<rparr>
     = Some \<lparr>width = 1440, height = 1080\<rparr>
   \<and> boundedToAspectRatio \<lparr>width = 640, height = 480\<rparr> \<lparr>width = 16, height = 9\<rparr>
     = Some \<lparr>width = 640, height = 360\<rparr>"
  using boundedToAspectRatio_shrinks [of "\<lparr>width = 4, height = 3\<rparr>" "\<lparr>width = 1920, height = 1080\<rparr>"]
        boundedToAspectRatio_shrinks [of "\<lparr>width = 16, height = 9\<rparr>" "\<lparr>width = 640, height = 480\<rparr>"]
  by (simp add: boundedToAspectRatio_def)

section \<open>Centering a size on a point\<close>

text \<open>
  C9, within the range of \<open>int\<close>. When \<open>p.x - s.width / 2\<close> and
  \<open>p.y - s.height / 2\<close>, with the halves truncated, are representable as \<open>int\<close>, the
  rectangle \<open>s.centeredTo(p)\<close> has the width and height of \<open>s\<close>, its top-left corner
  is exactly \<open>(p.x - s.width / 2, p.y - s.height / 2)\<close>, and its \<open>center()\<close> returns
  a point equal to \<open>p\<close>: the same halves are added back.
\<close>

theorem centeredTo_center:
  assumes "int32_range (sint (pt_x p) - uint (width s) div 2)"
    and "int32_range (sint (pt_y p) - uint (height s) div 2)"
  shows "rect_width (centeredTo s p) = width s
       \<and> rect_height (centeredTo s p) = height s
       \<and> sint (rect_x (centeredTo s p)) = sint (pt_x p) - uint (width s) div 2
       \<and> sint (rect_y (centeredTo s p)) = sint (pt_y p) - uint (height s) div 2
       \<and> center (centeredTo s p) = Some p
       \<and> (case center (centeredTo s p) of None \<Rightarrow> False | Some c \<Rightarrow> point_eq c p)"
proof -
  have x: "sint (rect_x (centeredTo s p)) = sint (pt_x p) - uint (width s) div 2"
    using assms(1) by (simp add: centeredTo_def sint_corner)
  have y: "sint (rect_y (centeredTo s p)) = sint (pt_y p) - uint (height s) div 2"
    using assms(2) by (simp add: centeredTo_def sint_corner)
  have c: "center (centeredTo s p) = Some p"
    using assms by (simp add: centeredTo_def center_def add_back_half)
  have e: "case center (centeredTo s p) of None \<Rightarrow> False | Some c \<Rightarrow> point_eq c p"
    by (simp add: c point_eq_iff)
  have "rect_width (centeredTo s p) = width s" and "rect_height (centeredTo s p) = height s"
    by (simp_all add: centeredTo_def)
  with x y c e show ?thesis
    by blast
qed

theorem centeredTo_center_witness:
  "sint (rect_x (centeredTo \<lparr>width = 5, height = 4\<rparr> \<lparr>pt_x = 1, pt_y = - 10\<rparr>)) = - 1
   \<and> sint (rect_y (centeredTo \<lparr>width = 5, height = 4\<rparr> \<lparr>pt_x = 1, pt_y = - 10\<rparr>)) = - 12
   \<and> center (centeredTo \<lparr>width = 5, height = 4\<rparr> \<lparr>pt_x = 1, pt_y = - 10\<rparr>)
       = Some \<lparr>pt_x = 1, pt_y = - 10\<rparr>"
proof -
  let ?s = "\<lparr>width = 5, height = 4\<rparr>" and ?p = "\<lparr>pt_x = 1, pt_y = - 10\<rparr>"
  have 1: "int32_range (sint (pt_x ?p) - uint (width ?s) div 2)"
    and 2: "int32_range (sint (pt_y ?p) - uint (height ?s) div 2)"
    by (simp_all add: int32_range_def)
  show ?thesis
    using centeredTo_center [OF 1 2] by simp
qed

text \<open>
  C9 as stated, for every size and point, fails: for \<open>Size(2,0)\<close> and
  \<open>Point(-2147483648,0)\<close> the corner \<open>-2147483648 - 1\<close> is not representable, the
  rectangle gets \<open>x = 2147483647\<close>, and \<open>center()\<close> overflows on
  \<open>2147483647 + 1\<close>: it returns no point.
\<close>

theorem centeredTo_center_counterexample:
  "sint (rect_x (centeredTo \<lparr>width = 2, height = 0\<rparr> \<lparr>pt_x = - 2147483648, pt_y = 0\<rparr>))
     = 2147483647
   \<and> center (centeredTo \<lparr>width = 2, height = 0\<rparr> \<lparr>pt_x = - 2147483648, pt_y = 0\<rparr>) = None"
  by (simp add: centeredTo_def center_def add_int_def int32_range_def)

section \<open>Scaling a rectangle\<close>

text \<open>
  C8. When both components of the denominator are non-zero, \<open>r.scaledBy(n, d)\<close>
  returns exactly the rectangle that \<open>scaleBy(n, d)\<close> leaves in a copy of \<open>r\<close>, and
  leaves \<open>r\<close> itself unchanged. Both compute \<open>x * n.width / d.width\<close> and
  \<open>y * n.height / d.height\<close> with the exact product and the quotient truncated towards
  zero, and likewise the width and the height; the 64-bit intermediates never overflow,
  and each result is stored in its 32-bit field.
\<close>

theorem scaledBy_eq_scaleBy:
  assumes "width denominator \<noteq> 0" and "height denominator \<noteq> 0"
  shows "let scaled =
               \<lparr>rect_x = word_of_int (sint (rect_x r) * uint (width numerator)
                                       sdiv uint (width denominator)),
                rect_y = word_of_int (sint (rect_y r) * uint (height numerator)
                                       sdiv uint (height denominator)),
                rect_width = word_of_nat (unat (rect_width r) * unat (width numerator)
                                           div unat (width denominator)),
                rect_height = word_of_nat (unat (rect_height r) * unat (height numerator)
                                            div unat (height denominator))\<rparr>
         in scaledBy numerator denominator r = Some (scaled, r)
            \<and> scaleBy numerator denominator r = Some scaled"
  using assms
  by (cases r) (simp add: scaledBy_def scaleBy_def Let_def scaled_coordinate scaled_extent)

theorem scaledBy_eq_scaleBy_witness:
  "scaledBy \<lparr>width = 3, height = 1\<rparr> \<lparr>width = 2, height = 4\<rparr>
            \<lparr>rect_x = - 7, rect_y = - 7, rect_width = 7, rect_height = 7\<rparr>
     = Some (\<lparr>rect_x = - 10, rect_y = - 1, rect_width = 10, rect_height = 1\<rparr>,
             \<lparr>rect_x = - 7, rect_y = - 7, rect_width = 7, rect_height = 7\<rparr>)
   \<and> scaleBy \<lparr>width = 3, height = 1\<rparr> \<lparr>width = 2, height = 4\<rparr>
            \<lparr>rect_x = - 7, rect_y = - 7, rect_width = 7, rect_height = 7\<rparr>
     = Some \<lparr>rect_x = - 10, rect_y = - 1, rect_width = 10, rect_height = 1\<rparr>"
proof -
  have d: "width \<lparr>width = 2 :: uint32, height = 4 :: uint32\<rparr> \<noteq> 0"
          "height \<lparr>width = 2 :: uint32, height = 4 :: uint32\<rparr> \<noteq> 0"
    by simp_all
  show ?thesis
    using scaledBy_eq_scaleBy [OF d, where numerator = "\<lparr>width = 3, height = 1\<rparr>"
        and r = "\<lparr>rect_x = - 7, rect_y = - 7, rect_width = 7, rect_height = 7\<rparr>"]
    by (simp add: signed_divide_int_def Let_def)
qed

section \<open>Rendering a rectangle\<close>

text \<open>
  C6, as the code has it. \<open>toString()\<close> renders a rectangle as \<open>(XxY)/WIDTHxHEIGHT\<close>:
  the coordinates in parentheses separated by the letter \<open>x\<close>, then a slash, then the
  width and the height separated by \<open>x\<close>. No comma occurs in the text of any
  rectangle; \<open>Rectangle(1,2,3,4)\<close> is rendered \<open>(1x2)/3x4\<close>.
\<close>

theorem rectangle_toString_format:
  "rectangle_toString r =
     ''('' @ dec_int (sint (rect_x r)) @ ''x'' @ dec_int (sint (rect_y r)) @ '')/'' @
     dec_nat (unat (rect_width r)) @ ''x'' @ dec_nat (unat (rect_height r))
   \<and> CHR '','' \<notin> set (rectangle_toString r)
   \<and> rectangle_toString \<lparr>rect_x = 1, rect_y = 2, rect_width = 3, rect_height = 4\<rparr> = ''(1x2)/3x4''
   \<and> rectangle_toString \<lparr>rect_x = - 16, rect_y = 0, rect_width = 1920, rect_height = 1080\<rparr>
       = ''(-16x0)/1920x1080''"
proof -
  have "CHR '','' \<notin> set (rectangle_toString r)"
    by (simp add: rectangle_toString_def dec_nat_no_comma dec_int_no_comma)
  moreover have "rectangle_toString \<lparr>rect_x = 1, rect_y = 2, rect_width = 3, rect_height = 4\<rparr>
      = ''(1x2)/3x4''"
    by (simp add: rectangle_toString_def dec_int_def dec_nat_small digit_char_def)
  moreover have "rectangle_toString
      \<lparr>rect_x = - 16, rect_y = 0, rect_width = 1920, rect_height = 1080\<rparr> = ''(-16x0)/1920x1080''"
    by (simp add: rectangle_toString_def dec_int_def dec_nat_small dec_nat_large digit_char_def)
  ultimately show ?thesis
    by (simp add: rectangle_toString_def)
qed

text \<open>
  C6 as stated, with a comma between the coordinates, fails: the text of
  \<open>Rectangle(1,2,3,4)\<close> is not \<open>(1,2)/3x4\<close>.
\<close>

theorem rectangle_toString_counterexample:
  "rectangle_toString \<lparr>rect_x = 1, rect_y = 2, rect_width = 3, rect_height = 4\<rparr> \<noteq> ''(1,2)/3x4''"
  by (simp add: rectangle_toString_def dec_int_def dec_nat_small digit_char_def)

section \<open>Intersecting rectangles\<close>

text \<open>
  C3, within the range of \<open>int\<close>. When the far edges \<open>x + width\<close> and \<open>y + height\<close>
  of both rectangles, and on each axis the difference between the smaller far edge and
  the larger near edge, are representable as \<open>int\<close>, \<open>r.boundedTo(bound)\<close> has its
  top-left corner at \<open>(max(r.x, bound.x), max(r.y, bound.y))\<close> and, on each axis, the
  extent \<open>max(min(r.far, bound.far) - max(r.near, bound.near), 0)\<close>. An axis without
  overlap has extent 0 while the other keeps its own.
\<close>

theorem boundedTo_intersection:
  assumes "int32_range (right_edge r)" and "int32_range (right_edge bound)"
    and "int32_range (bottom_edge r)" and "int32_range (bottom_edge bound)"
    and "int32_range (min (right_edge r) (right_edge bound)
                      - max (sint (rect_x r)) (sint (rect_x bound)))"
    and "int32_range (min (bottom_edge r) (bottom_edge bound)
                      - max (sint (rect_y r)) (sint (rect_y bound)))"
  shows "sint (rect_x (boundedTo r bound)) = max (sint (rect_x r)) (sint (rect_x bound))
       \<and> sint (rect_y (boundedTo r bound)) = max (sint (rect_y r)) (sint (rect_y bound))
       \<and> uint (rect_width (boundedTo r bound))
           = max (min (right_edge r) (right_edge bound)
                  - max (sint (rect_x r)) (sint (rect_x bound))) 0
       \<and> uint (rect_height (boundedTo r bound))
           = max (min (bottom_edge r) (bottom_edge bound)
                  - max (sint (rect_y r)) (sint (rect_y bound))) 0"
proof -
  have w: "uint (rect_width (boundedTo r bound))
           = max (min (right_edge r) (right_edge bound)
                  - max (sint (rect_x r)) (sint (rect_x bound))) 0"
    using assms(1,2,5) unfolding right_edge_def
    by (simp add: boundedTo_def Let_def overlap_extent)
  have h: "uint (rect_height (boundedTo r bound))
           = max (min (bottom_edge r) (bottom_edge bound)
                  - max (sint (rect_y r)) (sint (rect_y bound))) 0"
    using assms(3,4,6) unfolding bottom_edge_def
    by (simp add: boundedTo_def Let_def overlap_extent)
  show ?thesis
    using w h by (simp add: boundedTo_def Let_def sint_max_int)
qed

theorem boundedTo_intersection_witness:
  "boundedTo \<lparr>rect_x = 0, rect_y = 0, rect_width = 100, rect_height = 100\<rparr>
             \<lparr>rect_x = 50, rect_y = 50, rect_width = 100, rect_height = 100\<rparr>
     = \<lparr>rect_x = 50, rect_y = 50, rect_width = 50, rect_height = 50\<rparr>
   \<and> uint (rect_width (boundedTo \<lparr>rect_x = 0, rect_y = 0, rect_width = 10, rect_height = 10\<rparr>
                                    \<lparr>rect_x = 20, rect_y = 0, rect_width = 10, rect_height = 10\<rparr>)) = 0
   \<and> uint (rect_height (boundedTo \<lparr>rect_x = 0, rect_y = 0, rect_width = 10, rect_height = 10\<rparr>
                                     \<lparr>rect_x = 20, rect_y = 0, rect_width = 10, rect_height = 10\<rparr>)) = 10"
proof -
  let ?r = "\<lparr>rect_x = 0, rect_y = 0, rect_width = 10, rect_height = 10\<rparr>"
  let ?b = "\<lparr>rect_x = 20, rect_y = 0, rect_width = 10, rect_height = 10\<rparr>"
  have 1: "int32_range (right_edge ?r)" and 2: "int32_range (right_edge ?b)"
    and 3: "int32_range (bottom_edge ?r)" and 4: "int32_range (bottom_edge ?b)"
    and 5: "int32_range (min (right_edge ?r) (right_edge ?b)
                         - max (sint (rect_x ?r)) (sint (rect_x ?b)))"
    and 6: "int32_range (min (bottom_edge ?r) (bottom_edge ?b)
                         - max (sint (rect_y ?r)) (sint (rect_y ?b)))"
    by (simp_all add: int32_range_def right_edge_def bottom_edge_def)
  have "boundedTo \<lparr>rect_x = 0, rect_y = 0, rect_width = 100, rect_height = 100\<rparr>
             \<lparr>rect_x = 50, rect_y = 50, rect_width = 100, rect_height = 100\<rparr>
     = \<lparr>rect_x = 50, rect_y = 50, rect_width = 50, rect_height = 50\<rparr>"
    by (simp add: boundedTo_def max_int_def min_int_def word_sless_alt)
  then show ?thesis
    using boundedTo_intersection [OF 1 2 3 4 5 6]
    by (simp add: right_edge_def bottom_edge_def)
qed

text \<open>
  C3 as stated, for every pair of rectangles, fails: the intersection of
  \<open>Rectangle(0,0,4294967295,10)\<close> with \<open>Rectangle(0,0,10,10)\<close> is computed with width
  0, where the formula of the claim gives 10. The sum \<open>0 + 4294967295\<close> converted to
  \<open>int\<close> is \<open>-1\<close>.
\<close>

theorem boundedTo_counterexample:
  "uint (rect_width (boundedTo \<lparr>rect_x = 0, rect_y = 0, rect_width = 4294967295, rect_height = 10\<rparr>
                               \<lparr>rect_x = 0, rect_y = 0, rect_width = 10, rect_height = 10\<rparr>)) = 0
   \<and> max (min (right_edge \<lparr>rect_x = 0, rect_y = 0, rect_width = 4294967295, rect_height = 10\<rparr>)
               (right_edge \<lparr>rect_x = 0, rect_y = 0, rect_width = 10, rect_height = 10\<rparr>)
          - max (sint (0 :: int32)) (sint (0 :: int32))) 0 = 10"
  by (simp add: boundedTo_def max_int_def min_int_def word_sless_alt right_edge_def)

section \<open>Enclosing a rectangle in a boundary\<close>

text \<open>
  C4, within the range of \<open>int\<close>. When on each axis the intermediate values of
  \<open>axis_in_range\<close> are representable as \<open>int\<close>, \<open>r.enclosedIn(b)\<close> has the width
  \<open>min(r.width, b.width)\<close> and the height \<open>min(r.height, b.height)\<close>, its \<open>x\<close> is
  \<open>r.x\<close> clamped into \<open>[b.x, b.x + b.width - result.width]\<close> and its \<open>y\<close> likewise,
  so the result lies inside the boundary; a rectangle no larger than the boundary
  keeps its size and is only translated.
\<close>

theorem enclosedIn_translates:
  assumes "axis_in_range (sint (rect_x r)) (uint (rect_width r))
                         (sint (rect_x b)) (uint (rect_width b))"
    and "axis_in_range (sint (rect_y r)) (uint (rect_height r))
                       (sint (rect_y b)) (uint (rect_height b))"
  shows "rect_width (enclosedIn r b) = min (rect_width r) (rect_width b)
       \<and> rect_height (enclosedIn r b) = min (rect_height r) (rect_height b)
       \<and> sint (rect_x (enclosedIn r b))
           = max (sint (rect_x b))
                 (min (sint (rect_x r))
                      (sint (rect_x b) + uint (rect_width b) - uint (rect_width (enclosedIn r b))))
       \<and> sint (rect_y (enclosedIn r b))
           = max (sint (rect_y b))
                 (min (sint (rect_y r))
                      (sint (rect_y b) + uint (rect_height b) - uint (rect_height (enclosedIn r b))))
       \<and> sint (rect_x b) \<le> sint (rect_x (enclosedIn r b))
       \<and> sint (rect_x (enclosedIn r b)) + uint (rect_width (enclosedIn r b))
           \<le> sint (rect_x b) + uint (rect_width b)
       \<and> sint (rect_y b) \<le> sint (rect_y (enclosedIn r b))
       \<and> sint (rect_y (enclosedIn r b)) + uint (rect_height (enclosedIn r b))
           \<le> sint (rect_y b) + uint (rect_height b)
       \<and> (rect_width r \<le> rect_width b \<longrightarrow> rect_width (enclosedIn r b) = rect_width r)
       \<and> (rect_height r \<le> rect_height b \<longrightarrow> rect_height (enclosedIn r b) = rect_height r)"
proof -
  note x = enclose_axis [OF assms(1)] and y = enclose_axis [OF assms(2)]
  have w: "rect_width (enclosedIn r b) = min (rect_width r) (rect_width b)"
    by (simp add: enclosedIn_def boundedTo_def Let_def x(1))
  have h: "rect_height (enclosedIn r b) = min (rect_height r) (rect_height b)"
    by (simp add: enclosedIn_def boundedTo_def Let_def y(1))
  have px: "sint (rect_x (enclosedIn r b))
           = max (sint (rect_x b))
                 (min (sint (rect_x r))
                      (sint (rect_x b) + uint (rect_width b)
                       - uint (min (rect_width r) (rect_width b))))"
    using x(2) by (simp add: enclosedIn_def boundedTo_def Let_def)
  have py: "sint (rect_y (enclosedIn r b))
           = max (sint (rect_y b))
                 (min (sint (rect_y r))
                      (sint (rect_y b) + uint (rect_height b)
                       - uint (min (rect_height r) (rect_height b))))"
    using y(2) by (simp add: enclosedIn_def boundedTo_def Let_def)
  have lw: "uint (min (rect_width r) (rect_width b)) \<le> uint (rect_width b)"
    and lh: "uint (min (rect_height r) (rect_height b)) \<le> uint (rect_height b)"
    by (simp_all add: uint_word_min)
  have bx: "sint (rect_x b) \<le> sint (rect_x (enclosedIn r b))
       \<and> sint (rect_x (enclosedIn r b)) + uint (rect_width (enclosedIn r b))
           \<le> sint (rect_x b) + uint (rect_width b)"
    using lw unfolding px w by linarith
  have "by": "sint (rect_y b) \<le> sint (rect_y (enclosedIn r b))
       \<and> sint (rect_y (enclosedIn r b)) + uint (rect_height (enclosedIn r b))
           \<le> sint (rect_y b) + uint (rect_height b)"
    using lh unfolding py h by linarith
  have kw: "rect_width r \<le> rect_width b \<longrightarrow> rect_width (enclosedIn r b) = rect_width r"
    and kh: "rect_height r \<le> rect_height b \<longrightarrow> rect_height (enclosedIn r b) = rect_height r"
    by (simp_all add: w h)
  have px': "sint (rect_x (enclosedIn r b))
           = max (sint (rect_x b))
                 (min (sint (rect_x r))
                      (sint (rect_x b) + uint (rect_width b) - uint (rect_width (enclosedIn r b))))"
    using px by (simp only: w)
  have py': "sint (rect_y (enclosedIn r b))
           = max (sint (rect_y b))
                 (min (sint (rect_y r))
                      (sint (rect_y b) + uint (rect_height b) - uint (rect_height (enclosedIn r b))))"
    using py by (simp only: h)
  from w h px' py' bx "by" kw kh show ?thesis
    by blast
qed

theorem enclosedIn_translates_witness:
  "enclosedIn \<lparr>rect_x = 90, rect_y = 90, rect_width = 20, rect_height = 20\<rparr>
              \<lparr>rect_x = 0, rect_y = 0, rect_width = 100, rect_height = 100\<rparr>
     = \<lparr>rect_x = 80, rect_y = 80, rect_width = 20, rect_height = 20\<rparr>
   \<and> rect_width (enclosedIn \<lparr>rect_x = - 5, rect_y = 3, rect_width = 300, rect_height = 20\<rparr>
              \<lparr>rect_x = 0, rect_y = 0, rect_width = 100, rect_height = 100\<rparr>) = 100
   \<and> sint (rect_x (enclosedIn \<lparr>rect_x = - 5, rect_y = 3, rect_width = 300, rect_height = 20\<rparr>
              \<lparr>rect_x = 0, rect_y = 0, rect_width = 100, rect_height = 100\<rparr>)) = 0"
proof -
  let ?r = "\<lparr>rect_x = - 5, rect_y = 3, rect_width = 300, rect_height = 20\<rparr>"
  let ?b = "\<lparr>rect_x = 0, rect_y = 0, rect_width = 100, rect_height = 100\<rparr>"
  have 1: "axis_in_range (sint (rect_x ?r)) (uint (rect_width ?r))
                         (sint (rect_x ?b)) (uint (rect_width ?b))"
    and 2: "axis_in_range (sint (rect_y ?r)) (uint (rect_height ?r))
                          (sint (rect_y ?b)) (uint (rect_height ?b))"
    by (simp_all add: axis_in_range_def int32_range_def)
  have "enclosedIn \<lparr>rect_x = 90, rect_y = 90, rect_width = 20, rect_height = 20\<rparr>
              \<lparr>rect_x = 0, rect_y = 0, rect_width = 100, rect_height = 100\<rparr>
     = \<lparr>rect_x = 80, rect_y = 80, rect_width = 20, rect_height = 20\<rparr>"
    by (simp add: enclosedIn_def boundedTo_def max_int_def min_int_def clamp_int_def
        word_sless_alt)
  then show ?thesis
    using enclosedIn_translates [OF 1 2] by simp
qed

text \<open>
  C4 as stated, for every rectangle and boundary, fails: \<open>Rectangle(0,0,20,20)\<close> is
  no larger than the boundary \<open>Rectangle(-2147483648,0,2147483648,100)\<close>, yet enclosing
  it returns a rectangle of width 0. The sum \<open>0 + 2147483648\<close> converted to \<open>int\<close> is
  negative.
\<close>

theorem enclosedIn_counterexample:
  "rect_width \<lparr>rect_x = 0, rect_y = 0, rect_width = 20, rect_height = 20 :: uint32\<rparr>
     \<le> rect_width \<lparr>rect_x = - 2147483648, rect_y = 0, rect_width = 2147483648,
                    rect_height = 100 :: uint32\<rparr>
   \<and> rect_height \<lparr>rect_x = 0, rect_y = 0, rect_width = 20, rect_height = 20 :: uint32\<rparr>
     \<le> rect_height \<lparr>rect_x = - 2147483648, rect_y = 0, rect_width = 2147483648,
                     rect_height = 100 :: uint32\<rparr>
   \<and> enclosedIn \<lparr>rect_x = 0, rect_y = 0, rect_width = 20, rect_height = 20\<rparr>
                \<lparr>rect_x = - 2147483648, rect_y = 0, rect_width = 2147483648, rect_height = 100\<rparr>
     = \<lparr>rect_x = 0, rect_y = 0, rect_width = 0, rect_height = 20\<rparr>"
  by (simp add: enclosedIn_def boundedTo_def max_int_def min_int_def clamp_int_def
      word_sless_alt)

end
